theory Spec2Isabelle
  imports Complex_Main "HOL-Library.Word"
begin

section \<open>SSSP device functors (gunrock/app/sssp/sssp_functor.cuh)\<close>

subsection \<open>Data slice\<close>

text \<open>
  \<open>VertexId\<close> is the 32-bit \<open>int\<close> of the library's instantiations; a word holds its
  two's-complement bit pattern, so the literal \<open>-1\<close> of \<open>CondFilter\<close> is the word \<open>-1\<close>.
  \<open>unsigned int\<close> is a 32-bit word whose \<open>+\<close> wraps and whose \<open><\<close> is unsigned.
\<close>

type_synonym VertexId = "32 word"
type_synonym uint = "32 word"

text \<open>
  A binary32 value by what it denotes: a finite rational (both zeros are \<open>Finite 0\<close>,
  which \<open>delta == 0\<close> does not tell apart either), an infinity, or a NaN.
\<close>

datatype float32 = Finite rat | PlusInfinity | MinusInfinity | NaN

text \<open>
  The fields of \<open>ProblemData::DataSlice\<close> that the functors name. Each device array is
  addressed as \<open>base + id\<close>; the model keeps one cell per offset. The record is used
  through its extensible scheme, so whatever else the data slice holds is carried
  along in the \<open>more\<close> part.
\<close>

record DataSlice =
  d_labels :: "VertexId \<Rightarrow> uint"
  d_weights :: "VertexId \<Rightarrow> uint"
  d_preds :: "VertexId \<Rightarrow> VertexId"
  d_delta :: float32

subsection \<open>Memory primitives\<close>

text \<open>\<open>util::io::ModifiedLoad<...>::Ld(val, ptr + i)\<close>: \<open>val = ptr[i]\<close>.\<close>

definition Ld :: "(VertexId \<Rightarrow> 'v) \<Rightarrow> VertexId \<Rightarrow> 'v" where
  "Ld ptr i = ptr i"

text \<open>\<open>util::io::ModifiedStore<...>::St(val, ptr + i)\<close>: \<open>ptr[i] = val\<close>.\<close>

definition St :: "'v \<Rightarrow> (VertexId \<Rightarrow> 'v) \<Rightarrow> VertexId \<Rightarrow> (VertexId \<Rightarrow> 'v)" where
  "St val ptr i = ptr(i := val)"

text \<open>
  CUDA's \<open>atomicMin(address, val)\<close> on \<open>unsigned int\<close>: reads \<open>old\<close>, stores
  \<open>min(old, val)\<close> and returns \<open>old\<close>, as one indivisible step.
\<close>

definition atomicMin :: "(VertexId \<Rightarrow> uint) \<Rightarrow> VertexId \<Rightarrow> uint \<Rightarrow> uint \<times> (VertexId \<Rightarrow> uint)" where
  "atomicMin ptr i val = (let old = ptr i in (old, ptr(i := min old val)))"

subsection \<open>SSSPFunctor\<close>

definition CondEdge ::
  "VertexId \<Rightarrow> VertexId \<Rightarrow> 'a DataSlice_scheme \<Rightarrow> VertexId \<Rightarrow> VertexId
    \<Rightarrow> bool \<times> 'a DataSlice_scheme" where
  "CondEdge s_id d_id problem e_id e_id_in =
     (let label = Ld (d_labels problem) s_id;
          weight = Ld (d_weights problem) e_id;
          new_weight = weight + label;
          (old, labels') = atomicMin (d_labels problem) d_id new_weight
      in (new_weight < old, problem\<lparr>d_labels := labels'\<rparr>))"

text \<open>\<open>MARK_PATHS\<close> is a compile-time constant of \<open>ProblemData\<close>; it is the first argument.\<close>

definition ApplyEdge ::
  "bool \<Rightarrow> VertexId \<Rightarrow> VertexId \<Rightarrow> 'a DataSlice_scheme \<Rightarrow> VertexId \<Rightarrow> VertexId
    \<Rightarrow> 'a DataSlice_scheme" where
  "ApplyEdge MARK_PATHS s_id d_id problem e_id e_id_in =
     (if MARK_PATHS then problem\<lparr>d_preds := St s_id (d_preds problem) d_id\<rparr>
      else problem)"

definition CondFilter ::
  "VertexId \<Rightarrow> 'a DataSlice_scheme \<Rightarrow> uint \<Rightarrow> uint \<Rightarrow> bool \<times> 'a DataSlice_scheme" where
  "CondFilter node problem v nid = (node \<noteq> - 1, problem)"

definition ApplyFilter ::
  "VertexId \<Rightarrow> 'a DataSlice_scheme \<Rightarrow> uint \<Rightarrow> uint \<Rightarrow> 'a DataSlice_scheme" where
  "ApplyFilter node problem v nid = problem"

subsection \<open>PQFunctor\<close>

text \<open>
  In \<open>(delta == 0) ? weight : weight/delta\<close> the second operand is an \<open>unsigned int\<close>
  and the third a \<open>float\<close>, so the conditional has type \<open>float\<close>: in both branches
  \<open>weight\<close> is converted to binary32, and the \<open>return\<close> converts the \<open>float\<close> back
  to \<open>unsigned int\<close>.
\<close>

fun bit_length :: "nat \<Rightarrow> nat" where
  "bit_length n = (if n = 0 then 0 else Suc (bit_length (n div 2)))"

declare bit_length.simps [simp del]

text \<open>
  \<open>unsigned int\<close> to \<open>float\<close>: the nearest value with a 24-bit significand, ties to
  the even significand. \<open>e\<close> is the number of low bits that do not fit.
\<close>

definition uint_to_float :: "uint \<Rightarrow> float32" where
  "uint_to_float w =
     (let n = unat w;
          e = bit_length n - 24;
          q = n div 2 ^ e;
          r = n mod 2 ^ e;
          m = (if 2 ^ e < 2 * r then q + 1
               else if 2 * r = 2 ^ e \<and> odd q then q + 1
               else q)
      in Finite (of_nat (m * 2 ^ e)))"

text \<open>
  \<open>float\<close> to \<open>unsigned int\<close>: truncation towards zero; the language leaves the
  conversion undefined when the truncated value is not an \<open>unsigned int\<close>
  (\<open>None\<close>).
\<close>

definition float_to_uint :: "float32 \<Rightarrow> uint option" where
  "float_to_uint f =
     (case f of
        Finite x \<Rightarrow>
          if - 1 < x \<and> x < 2 ^ 32
          then Some (word_of_int (if x < 0 then 0 else \<lfloor>x\<rfloor>))
          else None
      | PlusInfinity \<Rightarrow> None
      | MinusInfinity \<Rightarrow> None
      | NaN \<Rightarrow> None)"

text \<open>
  \<open>fdiv\<close> is the device's binary32 division, which is no part of the repository; it
  is a parameter. It is only reached with a divisor that is not zero.
\<close>

definition ComputePriorityScore ::
  "(float32 \<Rightarrow> float32 \<Rightarrow> float32) \<Rightarrow> VertexId \<Rightarrow> 'a DataSlice_scheme
    \<Rightarrow> uint option \<times> 'a DataSlice_scheme" where
  "ComputePriorityScore fdiv node_id problem =
     (let weight = Ld (d_labels problem) node_id;
          delta = d_delta problem
      in (float_to_uint
            (if delta = Finite 0 then uint_to_float weight
             else fdiv (uint_to_float weight) delta),
          problem))"

subsection \<open>A sequence of relaxations\<close>

text \<open>
  Modelled from the spec: the Advance operator (gunrock/oprtr, not among the sources)
  calls \<open>CondEdge\<close> for an edge and \<open>ApplyEdge\<close> only when \<open>CondEdge\<close> returned true.
  An edge is (source, destination, edge id). \<open>Advance\<close> runs the relaxations of a
  list of edges one after the other: one interleaving of the atomic steps.
\<close>

definition relax ::
  "bool \<Rightarrow> 'a DataSlice_scheme \<Rightarrow> VertexId \<times> VertexId \<times> VertexId \<Rightarrow> 'a DataSlice_scheme" where
  "relax MARK_PATHS problem edge =
     (case edge of (s_id, d_id, e_id) \<Rightarrow>
        (let (won, problem') = CondEdge s_id d_id problem e_id 0
         in if won then ApplyEdge MARK_PATHS s_id d_id problem' e_id 0 else problem'))"

definition Advance ::
  "bool \<Rightarrow> (VertexId \<times> VertexId \<times> VertexId) list \<Rightarrow> 'a DataSlice_scheme
    \<Rightarrow> 'a DataSlice_scheme" where
  "Advance MARK_PATHS edge_list problem = foldl (relax MARK_PATHS) problem edge_list"

section \<open>Connected components entry point (test_cc.cu)\<close>

subsection \<open>Host data\<close>

text \<open>
  Host memory is a list of arrays of 4-byte integers; an address is an index into it,
  \<open>None\<close> is the \<open>NULL\<close> pointer, and a cell that was never written holds \<open>None\<close>.
\<close>

type_synonym addr = nat
type_synonym block = "int option list"
type_synonym cudaError_t = int

text \<open>
  \<open>gunrock.h\<close> is not among the sources. \<open>GunrockGraph\<close> and \<open>GunrockDataType\<close>
  have the fields and the enumerators that the entry point names. The two counts of
  \<open>GunrockGraph\<close> are integers of whatever width the header gives them.
\<close>

record GunrockGraph =
  num_nodes :: int
  num_edges :: int
  row_offsets :: "addr option"
  col_indices :: "addr option"
  node_values :: "addr option"

datatype VtxIdType = VTXID_INT
datatype SizeTType = SIZET_INT
datatype ValueType = VALUE_INT | VALUE_UINT | VALUE_FLOAT

record GunrockDataType =
  VTXID_TYPE :: VtxIdType
  SIZET_TYPE :: SizeTType
  VALUE_TYPE :: ValueType

text \<open>
  Modelled from the spec: the options of \<open>GunrockConfig\<close>, whose declaration is in
  \<open>gunrock.h\<close>: \<open>max_grid_size: int (0 = auto)\<close>, \<open>num_partitions: int\<close>,
  \<open>mark_paths: bool\<close>, \<open>delta: float\<close>. The field names carry the prefix \<open>cfg_\<close>.
\<close>

record GunrockConfig =
  cfg_max_grid_size :: int
  cfg_num_partitions :: int
  cfg_mark_paths :: bool
  cfg_delta :: float32

text \<open>
  \<open>Csr<int, int, int>\<close>: the fields that \<open>dispatch_cc\<close> and \<open>run_cc\<close> use. Its counts
  are 32-bit \<open>int\<close>s, kept as their two's-complement bit patterns.
\<close>

record Csr =
  nodes :: "32 word"
  edges :: "32 word"
  row_offsets :: "addr option"
  column_indices :: "addr option"

text \<open>
  What the entry point does to the outside, in program order: the lines it prints, the
  calls of \<open>util::GRError\<close> with the status and the message it hands over, and the
  calls into the problem and the enactor with their arguments.
\<close>

datatype event =
    Printf string
  | GRError cudaError_t string
  | Init_call bool Csr int
  | Reset_call
  | Enact_call int
  | Extract_call "addr option"
  | ComputeCCHistogram_call "addr option"
  | cudaDeviceSynchronize_call

text \<open>
  The state of the host: its arrays, the number of bytes its allocator can still hand
  out, the output graph of the caller and the trace.
\<close>

record host =
  memory :: "block list"
  heap_free :: nat
  out_graph :: GunrockGraph
  events :: "event list"

text \<open>
  \<open>CCProblem\<close> and \<open>CCEnactor\<close> are not among the sources: they are a parameter.
  \<open>'p\<close> is the state of the problem on the device. Each call returns its
  \<open>cudaError_t\<close> (0 is \<open>cudaSuccess\<close>). \<open>Init\<close> takes the graph by const reference
  and reads its arrays in host memory; \<open>Extract\<close> is given what is behind the host
  pointer (\<open>None\<close> behind \<open>NULL\<close>) and returns what the buffer holds afterwards.
\<close>

record 'p CCEngine =
  Init :: "bool \<Rightarrow> Csr \<Rightarrow> block list \<Rightarrow> int \<Rightarrow> cudaError_t \<times> 'p"
  Reset :: "'p \<Rightarrow> cudaError_t \<times> 'p"
  Enact :: "'p \<Rightarrow> int \<Rightarrow> cudaError_t \<times> 'p"
  Extract :: "'p \<Rightarrow> block option \<Rightarrow> cudaError_t \<times> block"

definition emit :: "event list \<Rightarrow> host \<Rightarrow> host" where
  "emit es h = h\<lparr>events := events h @ es\<rparr>"

text \<open>
  \<open>malloc(bytes)\<close> with a \<open>size_t\<close> of 64 bits. A request that fits what the host
  has left is granted: a new array of cells that were never written, at a fresh
  address (an empty array for a request of 0 bytes). Any other request returns
  \<open>NULL\<close> and changes nothing. No request of \<open>2^63\<close> bytes or more is granted.
\<close>

definition malloc :: "64 word \<Rightarrow> host \<Rightarrow> addr option \<times> host" where
  "malloc bytes h =
     (if unat bytes \<le> heap_free h \<and> unat bytes < 2 ^ 63
      then (Some (length (memory h)),
            h\<lparr>memory := memory h @ [replicate (unat bytes div 4) None],
              heap_free := heap_free h - unat bytes\<rparr>)
      else (None, h))"

subsection \<open>run_cc\<close>

text \<open>
  The buffer is requested with \<open>sizeof(VertexId) * csr_graph.nodes\<close>: the \<open>int\<close> is
  converted to \<open>size_t\<close>, so a negative count asks for nearly \<open>2^64\<close> bytes. The
  pointer is not checked: after a failed request \<open>Extract\<close> is called with \<open>NULL\<close>,
  nothing is stored on the host and \<open>node_values\<close> is \<open>NULL\<close>.
  The return value of every \<open>util::GRError\<close> call is dropped, so each stage runs
  whatever the status of the one before. The root and histogram arrays are allocated,
  filled by \<open>ComputeCCHistogram\<close> and deleted inside the function, and the timer's
  reading is only printed: of the printed line the model keeps the format.
\<close>

definition run_cc :: "'p CCEngine \<Rightarrow> Csr \<Rightarrow> int \<Rightarrow> int \<Rightarrow> host \<Rightarrow> host" where
  "run_cc engine csr_graph max_grid_size num_gpus h =
     (let (h_component_ids, h1) = malloc (4 * scast (nodes csr_graph)) h;
          (e_init, problem1) = Init engine False csr_graph (memory h1) num_gpus;
          h2 = emit [Init_call False csr_graph num_gpus,
                     GRError e_init ''CC Problem Initialization Failed''] h1;
          (e_reset, problem2) = Reset engine problem1;
          h3 = emit [Reset_call, GRError e_reset ''CC Problem Data Reset Failed''] h2;
          (e_enact, problem3) = Enact engine problem2 max_grid_size;
          h4 = emit [Enact_call max_grid_size, GRError e_enact ''CC Problem Enact Failed''] h3;
          (e_extract, ids) =
             Extract engine problem3 (map_option (\<lambda>a. memory h4 ! a) h_component_ids);
          h5 = emit [Extract_call h_component_ids,
                     GRError e_extract ''CC Problem Data Extraction Failed'']
                 (case h_component_ids of
                    None \<Rightarrow> h4
                  | Some a \<Rightarrow> h4\<lparr>memory := (memory h4)[a := ids]\<rparr>);
          h6 = emit [ComputeCCHistogram_call h_component_ids] h5;
          h7 = h6\<lparr>out_graph := (out_graph h6)\<lparr>node_values := h_component_ids\<rparr>\<rparr>
      in emit [Printf (''GPU Connected Component finished in %lf msec.'' @ [CHR 0x0A]),
               cudaDeviceSynchronize_call] h7)"

subsection \<open>dispatch_cc and gunrock_cc_func\<close>

text \<open>
  The local \<open>csr_graph\<close> borrows the two arrays of \<open>ggraph_in\<close>; after \<open>run_cc\<close> its
  pointers are set to \<open>NULL\<close> and it leaves scope owning no array.
\<close>

definition dispatch_cc ::
  "'p CCEngine \<Rightarrow> GunrockGraph \<Rightarrow> GunrockConfig \<Rightarrow> GunrockDataType \<Rightarrow> host \<Rightarrow> host" where
  "dispatch_cc engine ggraph_in cc_config data_type h =
     (case VTXID_TYPE data_type of
        VTXID_INT \<Rightarrow>
          (case SIZET_TYPE data_type of
             SIZET_INT \<Rightarrow>
               (case VALUE_TYPE data_type of
                  VALUE_INT \<Rightarrow>
                    (let csr_graph =
                           \<lparr>nodes = word_of_int (num_nodes ggraph_in),
                            edges = word_of_int (num_edges ggraph_in),
                            row_offsets = GunrockGraph.row_offsets ggraph_in,
                            column_indices = col_indices ggraph_in\<rparr>;
                         max_grid_size = 0;
                         num_gpus = 1;
                         h' = run_cc engine csr_graph max_grid_size num_gpus h;
                         csr_graph = csr_graph\<lparr>row_offsets := None, column_indices := None\<rparr>
                     in h')
                | VALUE_UINT \<Rightarrow>
                    emit [Printf (''Not Yet Support This DataType Combination.'' @ [CHR 0x0A])] h
                | VALUE_FLOAT \<Rightarrow>
                    emit [Printf (''Not Yet Support This DataType Combination.'' @ [CHR 0x0A])] h)))"

definition gunrock_cc_func ::
  "'p CCEngine \<Rightarrow> GunrockGraph \<Rightarrow> GunrockConfig \<Rightarrow> GunrockDataType \<Rightarrow> host \<Rightarrow> host" where
  "gunrock_cc_func engine ggraph_in cc_configs data_type h =
     dispatch_cc engine ggraph_in cc_configs data_type h"

subsection \<open>Reading a trace\<close>

definition engine_calls :: "event list \<Rightarrow> event list" where
  "engine_calls es =
     filter (\<lambda>e. case e of Printf s \<Rightarrow> False | GRError c m \<Rightarrow> False | _ \<Rightarrow> True) es"

definition reported :: "event list \<Rightarrow> (cudaError_t \<times> string) list" where
  "reported es = concat (map (\<lambda>e. case e of GRError c m \<Rightarrow> [(c, m)] | _ \<Rightarrow> []) es)"

definition printed :: "event list \<Rightarrow> string list" where
  "printed es = concat (map (\<lambda>e. case e of Printf s \<Rightarrow> [s] | _ \<Rightarrow> []) es)"

subsection \<open>Concrete inputs\<close>

text \<open>A device on which every stage succeeds and every vertex ends in component 0.\<close>

definition ok_engine :: "unit CCEngine" where
  "ok_engine =
     \<lparr>Init = (\<lambda>stream_from_host g m n. (0, ())),
      Reset = (\<lambda>p. (0, p)),
      Enact = (\<lambda>p g. (0, p)),
      Extract = (\<lambda>p b. (0, case b of None \<Rightarrow> [] | Some cells \<Rightarrow> map (\<lambda>c. Some 0) cells))\<rparr>"



text \<open>
  A host with 1 GiB to hand out that holds the graph of two vertices joined by an edge
  in each direction. Block 0 is \<open>row_offsets\<close>, block 1 is \<open>col_indices\<close>.
\<close>

definition fresh_out :: GunrockGraph where
  "fresh_out = \<lparr>num_nodes = 0, num_edges = 0, row_offsets = None, col_indices = None,
                 node_values = None\<rparr>"

definition pair_host :: host where
  "pair_host = \<lparr>memory = [[Some 0, Some 1, Some 2], [Some 1, Some 0]],
                 heap_free = 1073741824, out_graph = fresh_out, events = []\<rparr>"

definition pair_graph :: GunrockGraph where
  "pair_graph = \<lparr>num_nodes = 2, num_edges = 2, row_offsets = Some 0, col_indices = Some 1,
                  node_values = None\<rparr>"

text \<open>The same descriptor with a vertex count of \<open>-1\<close>.\<close>

definition negative_graph :: GunrockGraph where
  "negative_graph = \<lparr>num_nodes = - 1, num_edges = 2, row_offsets = Some 0,
                      col_indices = Some 1, node_values = None\<rparr>"

definition int_types :: "ValueType \<Rightarrow> GunrockDataType" where
  "int_types v = \<lparr>VTXID_TYPE = VTXID_INT, SIZET_TYPE = SIZET_INT, VALUE_TYPE = v\<rparr>"

definition some_config :: GunrockConfig where
  "some_config = \<lparr>cfg_max_grid_size = 7, cfg_num_partitions = 4, cfg_mark_paths = False,
                   cfg_delta = Finite 0\<rparr>"

text \<open>
  A data slice for the relaxation examples: vertex 0 is unreached (its label is the
  largest \<open>unsigned int\<close>), vertex 1 has label 5, every edge weighs 3.
\<close>

definition wrap_slice :: DataSlice where
  "wrap_slice = \<lparr>d_labels = (\<lambda>v. 4294967295)(1 := 5), d_weights = (\<lambda>e. 3),
                  d_preds = (\<lambda>v. - 1), d_delta = Finite 0\<rparr>"

text \<open>A data slice whose labels are all \<open>2^24 + 1\<close>, with \<open>delta = 0\<close>.\<close>

definition big_slice :: DataSlice where
  "big_slice = \<lparr>d_labels = (\<lambda>v. 16777217), d_weights = (\<lambda>e. 1),
                 d_preds = (\<lambda>v. - 1), d_delta = Finite 0\<rparr>"

section \<open>Properties of the SSSP functors\<close>

subsection \<open>Auxiliary facts\<close>

lemma CondEdge_eq:
  "CondEdge s_id d_id problem e_id e_id_in =
     (d_weights problem e_id + d_labels problem s_id < d_labels problem d_id,
      problem\<lparr>d_labels := (d_labels problem)
        (d_id := min (d_labels problem d_id) (d_weights problem e_id + d_labels problem s_id))\<rparr>)"
  by (simp add: CondEdge_def Ld_def atomicMin_def Let_def)

lemma CondEdge_labels_le:
  "d_labels (snd (CondEdge s_id d_id problem e_id e_id_in)) v \<le> d_labels problem v"
  by (simp add: CondEdge_eq)

lemma ApplyEdge_labels:
  "d_labels (ApplyEdge mp s_id d_id problem e_id e_id_in) = d_labels problem"
  by (simp add: ApplyEdge_def)

lemma relax_labels_le: "d_labels (relax mp problem edge) v \<le> d_labels problem v"
proof (cases edge)
  case (fields s_id d_id e_id)
  obtain won problem' where c: "CondEdge s_id d_id problem e_id 0 = (won, problem')"
    by (cases "CondEdge s_id d_id problem e_id 0")
  have "d_labels problem' v \<le> d_labels problem v"
    using CondEdge_labels_le [of s_id d_id problem e_id 0 v] c by simp
  then show ?thesis
    by (simp add: relax_def fields c ApplyEdge_labels)
qed

lemma Advance_labels_le: "d_labels (Advance mp es problem) v \<le> d_labels problem v"
  unfolding Advance_def
proof (induction es arbitrary: problem)
  case Nil
  show ?case by simp
next
  case (Cons edge es)
  have "d_labels (foldl (relax mp) (relax mp problem edge) es) v
      \<le> d_labels (relax mp problem edge) v" by (rule Cons.IH)
  also have "\<dots> \<le> d_labels problem v" by (rule relax_labels_le)
  finally show ?case by simp
qed

lemma unat_candidate:
  "unat (d_weights problem e_id + d_labels problem s_id)
     = (unat (d_labels problem s_id) + unat (d_weights problem e_id)) mod 2 ^ 32"
proof -
  have "unat (d_weights problem e_id + d_labels problem s_id)
      = (unat (d_weights problem e_id) + unat (d_labels problem s_id)) mod 2 ^ LENGTH(32)"
    by (rule unat_word_ariths(1))
  then show ?thesis by (simp only: add.commute len_bit0 len_num1 mult_1_right) simp
qed

lemma bit_length_big: "bit_length 16777217 = 25"
  by (simp add: bit_length.simps)

lemma bit_length_le: "n < 2 ^ k \<Longrightarrow> bit_length n \<le> k"
proof (induction n arbitrary: k rule: bit_length.induct)
  case (1 n)
  show ?case
  proof (cases "n = 0")
    case True
    then show ?thesis by (simp add: bit_length.simps)
  next
    case False
    then obtain j where k: "k = Suc j" using "1.prems" by (cases k) auto
    have "n div 2 < 2 ^ j" using "1.prems" k by auto
    from "1.IH"[OF False this] show ?thesis using False k
      by (simp add: bit_length.simps[of n])
  qed
qed

lemma uint_to_float_small:
  "unat w < 2 ^ 24 \<Longrightarrow> uint_to_float w = Finite (rat_of_nat (unat w))"
  using bit_length_le[of "unat w" 24] by (simp add: uint_to_float_def Let_def del: of_nat_unat)

lemma float_to_uint_of_nat:
  "n < 2 ^ 32 \<Longrightarrow> float_to_uint (Finite (rat_of_nat n)) = Some (word_of_nat n)"
proof -
  assume "n < 2 ^ 32"
  then have "rat_of_nat n < 2 ^ 32" by (simp only: of_nat_less_numeral_power_cancel_iff)
  moreover have "- 1 < rat_of_nat n" by (rule less_le_trans [of _ 0]) simp_all
  moreover have "\<not> rat_of_nat n < 0" by simp
  ultimately show ?thesis by (simp add: float_to_uint_def)
qed

text \<open>
  A label below \<open>2^24\<close> survives the two conversions: with \<open>delta = 0\<close> the score of
  such a vertex is its label.
\<close>

lemma ComputePriorityScore_small:
  assumes "d_delta problem = Finite 0" and "unat (d_labels problem node_id) < 2 ^ 24"
  shows "fst (ComputePriorityScore fdiv node_id problem) = Some (d_labels problem node_id)"
proof -
  let ?w = "d_labels problem node_id"
  have "unat ?w < 2 ^ 32" using assms(2) by simp
  then have "float_to_uint (Finite (rat_of_nat (unat ?w))) = Some (word_of_nat (unat ?w))"
    by (rule float_to_uint_of_nat)
  then have "float_to_uint (uint_to_float ?w) = Some ?w"
    by (simp add: uint_to_float_small [OF assms(2)])
  then show ?thesis
    using assms(1) by (simp add: ComputePriorityScore_def Ld_def Let_def)
qed

subsection \<open>Edge relaxation\<close>

text \<open>
  C1. A call \<open>CondEdge(s, d, problem, e_id)\<close> computes the candidate
  \<open>labels[s] + weight[e_id]\<close> (in \<open>unsigned int\<close> arithmetic), replaces \<open>labels[d]\<close> by
  the minimum of its value and the candidate, touches nothing else, and returns true
  exactly when the candidate is strictly below the value \<open>labels[d]\<close> held before.
\<close>

theorem CondEdge_min_and_winner:
  "fst (CondEdge s_id d_id problem e_id e_id_in)
     = (d_labels problem s_id + d_weights problem e_id < d_labels problem d_id)
   \<and> snd (CondEdge s_id d_id problem e_id e_id_in)
     = problem\<lparr>d_labels := (d_labels problem)
         (d_id := min (d_labels problem d_id)
                      (d_labels problem s_id + d_weights problem e_id))\<rparr>"
  by (simp add: CondEdge_eq add.commute)

text \<open>
  C2. No label ever increases: a call of \<open>CondEdge\<close> leaves every entry of \<open>labels\<close>
  at most what it was, and so does any sequence of relaxations of an Advance step,
  with or without path marking.
\<close>

theorem labels_never_increase:
  "d_labels (snd (CondEdge s_id d_id problem e_id e_id_in)) v \<le> d_labels problem v
   \<and> d_labels (Advance MARK_PATHS es problem) v \<le> d_labels problem v"
  by (simp add: CondEdge_labels_le Advance_labels_le)

text \<open>
  C6. \<open>ApplyEdge(s, d, problem)\<close> with path marking stores \<open>s\<close> in \<open>preds[d]\<close> and
  changes no other cell and no other field; without path marking it changes nothing.
\<close>

theorem ApplyEdge_frame:
  "ApplyEdge True s_id d_id problem e_id e_id_in
     = problem\<lparr>d_preds := (d_preds problem)(d_id := s_id)\<rparr>
   \<and> ApplyEdge False s_id d_id problem e_id e_id_in = problem"
  by (simp add: ApplyEdge_def St_def)

text \<open>
  C7. The filter of SSSP is pure compaction: \<open>CondFilter\<close> is true exactly for the
  ids other than \<open>-1\<close> and leaves the data slice alone, and \<open>ApplyFilter\<close> leaves the
  data slice as it is.
\<close>

theorem filter_is_compaction:
  "fst (CondFilter node problem v nid) = (node \<noteq> - 1)
   \<and> snd (CondFilter node problem v nid) = problem
   \<and> ApplyFilter node problem v nid = problem"
  by (simp add: CondFilter_def ApplyFilter_def)

text \<open>
  C10. The candidate of \<open>CondEdge\<close> is \<open>(labels[s] + weight[e_id]) mod 2^32\<close>: the
  result and the new \<open>labels[d]\<close> are decided by the wrapped sum. In \<open>wrap_slice\<close> the
  source is unreached, the sum exceeds \<open>2^32 - 1\<close>, the candidate wraps to 2 and beats
  the label 5 of the destination.
\<close>

theorem CondEdge_candidate_wraps:
  "fst (CondEdge s_id d_id problem e_id e_id_in)
     = ((unat (d_labels problem s_id) + unat (d_weights problem e_id)) mod 2 ^ 32
          < unat (d_labels problem d_id))
   \<and> unat (d_labels (snd (CondEdge s_id d_id problem e_id e_id_in)) d_id)
     = min (unat (d_labels problem d_id))
           ((unat (d_labels problem s_id) + unat (d_weights problem e_id)) mod 2 ^ 32)
   \<and> 2 ^ 32 - 1 < unat (d_labels wrap_slice 0) + unat (d_weights wrap_slice 0)
   \<and> d_labels wrap_slice 1 = 5
   \<and> fst (CondEdge 0 1 wrap_slice 0 0)
   \<and> d_labels (snd (CondEdge 0 1 wrap_slice 0 0)) 1 = 2"
proof -
  have general1: "fst (CondEdge s_id d_id problem e_id e_id_in)
     = ((unat (d_labels problem s_id) + unat (d_weights problem e_id)) mod 2 ^ 32
          < unat (d_labels problem d_id))"
    by (simp add: CondEdge_eq word_less_nat_alt unat_candidate)
  have general2: "unat (d_labels (snd (CondEdge s_id d_id problem e_id e_id_in)) d_id)
     = min (unat (d_labels problem d_id))
           ((unat (d_labels problem s_id) + unat (d_weights problem e_id)) mod 2 ^ 32)"
    by (simp add: CondEdge_eq min_def word_le_nat_alt unat_candidate)
  have example: "2 ^ 32 - 1 < unat (d_labels wrap_slice 0) + unat (d_weights wrap_slice 0)
     \<and> d_labels wrap_slice 1 = 5
     \<and> fst (CondEdge 0 1 wrap_slice 0 0)
     \<and> d_labels (snd (CondEdge 0 1 wrap_slice 0 0)) 1 = 2"
    by (simp add: CondEdge_eq wrap_slice_def)
  from general1 general2 example show ?thesis by blast
qed

subsection \<open>Priority score\<close>

text \<open>
  C8. With \<open>delta = 0\<close> the score is meant to be the label itself. In \<open>big_slice\<close>
  the label is \<open>2^24 + 1\<close> and \<open>delta\<close> is 0, yet the score is \<open>2^24\<close>, whatever the
  division: the label went through \<open>float\<close>.
\<close>

theorem ComputePriorityScore_rounds_label:
  "\<forall>fdiv. d_labels big_slice 0 = 16777217 \<and> d_delta big_slice = Finite 0
     \<and> fst (ComputePriorityScore fdiv 0 big_slice) = Some 16777216"
  by (simp add: ComputePriorityScore_def Ld_def uint_to_float_def float_to_uint_def Let_def
      big_slice_def bit_length_big)

section \<open>Properties of the connected components entry point\<close>

subsection \<open>Auxiliary facts\<close>

lemma events_emit: "events (emit es h) = events h @ es"
  by (simp add: emit_def)

lemma memory_emit: "memory (emit es h) = memory h"
  by (simp add: emit_def)

lemma out_graph_emit: "out_graph (emit es h) = out_graph h"
  by (simp add: emit_def)

lemma events_malloc: "events (snd (malloc bytes h)) = events h"
  by (simp add: malloc_def)

lemma out_graph_malloc: "out_graph (snd (malloc bytes h)) = out_graph h"
  by (simp add: malloc_def)

lemma memory_malloc:
  "memory (snd (malloc bytes h)) =
     (case fst (malloc bytes h) of
        None \<Rightarrow> memory h
      | Some a \<Rightarrow> memory h @ [replicate (unat bytes div 4) None])"
  by (simp add: malloc_def)

lemma fst_malloc_cases:
  "fst (malloc bytes h) = None \<or> fst (malloc bytes h) = Some (length (memory h))"
  by (simp add: malloc_def)

lemma run_cc_events:
  "events (run_cc engine csr_graph max_grid_size num_gpus h) =
     (let (h_component_ids, h1) = malloc (4 * scast (nodes csr_graph)) h;
          (e_init, problem1) = Init engine False csr_graph (memory h1) num_gpus;
          (e_reset, problem2) = Reset engine problem1;
          (e_enact, problem3) = Enact engine problem2 max_grid_size;
          (e_extract, ids) =
             Extract engine problem3 (map_option (\<lambda>a. memory h1 ! a) h_component_ids)
      in events h @
         [Init_call False csr_graph num_gpus,
          GRError e_init ''CC Problem Initialization Failed'',
          Reset_call,
          GRError e_reset ''CC Problem Data Reset Failed'',
          Enact_call max_grid_size,
          GRError e_enact ''CC Problem Enact Failed'',
          Extract_call h_component_ids,
          GRError e_extract ''CC Problem Data Extraction Failed'',
          ComputeCCHistogram_call h_component_ids,
          Printf (''GPU Connected Component finished in %lf msec.'' @ [CHR 0x0A]),
          cudaDeviceSynchronize_call])"
proof -
  obtain p h1 where m: "malloc (4 * scast (nodes csr_graph)) h = (p, h1)"
    by (cases "malloc (4 * scast (nodes csr_graph)) h")
  have e: "events h1 = events h"
    using events_malloc [of "4 * scast (nodes csr_graph)" h] m by simp
  show ?thesis
    by (cases p)
       (simp_all add: run_cc_def m e Let_def events_emit memory_emit split: prod.splits)
qed

lemma run_cc_memory:
  "memory (run_cc engine csr_graph max_grid_size num_gpus h) =
     (let (h_component_ids, h1) = malloc (4 * scast (nodes csr_graph)) h;
          (e_init, problem1) = Init engine False csr_graph (memory h1) num_gpus;
          (e_reset, problem2) = Reset engine problem1;
          (e_enact, problem3) = Enact engine problem2 max_grid_size;
          (e_extract, ids) =
             Extract engine problem3 (map_option (\<lambda>a. memory h1 ! a) h_component_ids)
      in case h_component_ids of
           None \<Rightarrow> memory h
         | Some a \<Rightarrow> memory h @ [ids])"
proof -
  obtain p h1 where m: "malloc (4 * scast (nodes csr_graph)) h = (p, h1)"
    by (cases "malloc (4 * scast (nodes csr_graph)) h")
  show ?thesis
  proof (cases p)
    case None
    then have "memory h1 = memory h"
      using memory_malloc [of "4 * scast (nodes csr_graph)" h] m by simp
    then show ?thesis
      by (simp add: run_cc_def m None Let_def memory_emit split: prod.splits)
  next
    case (Some a)
    then have a: "a = length (memory h)"
      using fst_malloc_cases [of "4 * scast (nodes csr_graph)" h] m by simp
    have "memory h1 = memory h @ [replicate (unat (4 * scast (nodes csr_graph) :: 64 word) div 4) None]"
      using memory_malloc [of "4 * scast (nodes csr_graph)" h] m Some by simp
    then show ?thesis
      by (simp add: run_cc_def m Some a Let_def memory_emit split: prod.splits)
  qed
qed

lemma run_cc_memory_prefix:
  "take (length (memory h)) (memory (run_cc engine csr_graph max_grid_size num_gpus h))
     = memory h"
  by (simp add: run_cc_memory Let_def split: prod.splits option.splits)

lemma run_cc_out_graph:
  "out_graph (run_cc engine csr_graph max_grid_size num_gpus h)
     = (out_graph h)\<lparr>node_values := fst (malloc (4 * scast (nodes csr_graph)) h)\<rparr>"
proof -
  obtain p h1 where m: "malloc (4 * scast (nodes csr_graph)) h = (p, h1)"
    by (cases "malloc (4 * scast (nodes csr_graph)) h")
  have e: "out_graph h1 = out_graph h"
    using out_graph_malloc [of "4 * scast (nodes csr_graph)" h] m by simp
  show ?thesis
    by (cases p)
       (simp_all add: run_cc_def m e Let_def out_graph_emit split: prod.splits)
qed

lemma dispatch_cc_INT:
  "dispatch_cc engine ggraph_in cc_config (int_types VALUE_INT) h =
     run_cc engine
       \<lparr>nodes = word_of_int (num_nodes ggraph_in), edges = word_of_int (num_edges ggraph_in),
        row_offsets = GunrockGraph.row_offsets ggraph_in,
        column_indices = col_indices ggraph_in\<rparr> 0 1 h"
  by (simp add: dispatch_cc_def int_types_def Let_def)

lemma engine_calls_append: "engine_calls (xs @ ys) = engine_calls xs @ engine_calls ys"
  by (simp add: engine_calls_def)



lemma engine_calls_run:
  "engine_calls [Init_call a b c, GRError e1 m1, Reset_call, GRError e2 m2, Enact_call d,
      GRError e3 m3, Extract_call x, GRError e4 m4, ComputeCCHistogram_call y, Printf s,
      cudaDeviceSynchronize_call]
     = [Init_call a b c, Reset_call, Enact_call d, Extract_call x, ComputeCCHistogram_call y,
        cudaDeviceSynchronize_call]"
  by (simp add: engine_calls_def)



text \<open>
  The two requests of the examples: 8 bytes are granted; \<open>2^64 - 4\<close> bytes, the word
  \<open>- 4\<close>, are not.
\<close>

lemma replicate_two: "replicate 2 x = [x, x]"
  by (simp add: numeral_2_eq_2)

lemma malloc_pair:
  "malloc 8 pair_host =
     (Some 2, pair_host\<lparr>memory := memory pair_host @ [[None, None]],
                        heap_free := 1073741816\<rparr>)"
  by (simp add: malloc_def pair_host_def replicate_two)

lemma malloc_negative: "malloc (- 4) pair_host = (None, pair_host)"
  by (simp add: malloc_def pair_host_def)

text \<open>
  With a vertex count of \<open>-1\<close> the request fails: the output graph gets the \<open>NULL\<close>
  pointer and the host memory is as before.
\<close>

lemma run_cc_negative_count:
  "node_values (out_graph
      (gunrock_cc_func ok_engine negative_graph some_config (int_types VALUE_INT) pair_host))
     = None
   \<and> memory
      (gunrock_cc_func ok_engine negative_graph some_config (int_types VALUE_INT) pair_host)
     = memory pair_host"
  by (simp add: gunrock_cc_func_def dispatch_cc_INT run_cc_out_graph run_cc_memory
      negative_graph_def malloc_negative)

subsection \<open>Type dispatch\<close>

text \<open>
  C3, as stated, at \<open>(VTXID_INT, SIZET_INT, VALUE_UINT)\<close>: the caller gets nothing
  back. The output graph and the host memory are what they were before the call,
  \<open>util::GRError\<close> is handed nothing, and the only trace is one line on standard
  output.
\<close>

theorem dispatch_cc_unsupported_no_result:
  "out_graph (dispatch_cc ok_engine pair_graph some_config (int_types VALUE_UINT) pair_host)
     = out_graph pair_host
   \<and> memory (dispatch_cc ok_engine pair_graph some_config (int_types VALUE_UINT) pair_host)
     = memory pair_host
   \<and> reported (events
        (dispatch_cc ok_engine pair_graph some_config (int_types VALUE_UINT) pair_host)) = []
   \<and> printed (events
        (dispatch_cc ok_engine pair_graph some_config (int_types VALUE_UINT) pair_host))
     = [''Not Yet Support This DataType Combination.'' @ [CHR 0x0A]]"
  by (simp add: dispatch_cc_def int_types_def emit_def pair_host_def reported_def printed_def)

text \<open>
  C3, amended. For the value types \<open>VALUE_UINT\<close> and \<open>VALUE_FLOAT\<close> the dispatch
  prints \<open>Not Yet Support This DataType Combination.\<close>, calls neither the problem nor
  the enactor, leaves the output graph and the host memory as they are, and returns to
  its caller.
\<close>

theorem dispatch_cc_unsupported_prints:
  "dispatch_cc engine ggraph_in cc_config (int_types VALUE_UINT) h
     = h\<lparr>events := events h @
           [Printf (''Not Yet Support This DataType Combination.'' @ [CHR 0x0A])]\<rparr>
   \<and> dispatch_cc engine ggraph_in cc_config (int_types VALUE_FLOAT) h
     = h\<lparr>events := events h @
           [Printf (''Not Yet Support This DataType Combination.'' @ [CHR 0x0A])]\<rparr>"
  by (simp add: dispatch_cc_def int_types_def emit_def)

subsection \<open>Configuration\<close>

text \<open>
  C4, as stated, at a configuration with \<open>max_grid_size = 7\<close> and
  \<open>num_partitions = 4\<close>: the enactor is called with 0 and the problem is initialised
  for 1 GPU.
\<close>

theorem dispatch_cc_config_ignored:
  "cfg_max_grid_size some_config = 7
   \<and> cfg_num_partitions some_config = 4
   \<and> engine_calls (events
        (dispatch_cc ok_engine pair_graph some_config (int_types VALUE_INT) pair_host))
     = [Init_call False
          \<lparr>nodes = 2, edges = 2, row_offsets = Some 0, column_indices = Some 1\<rparr> 1,
        Reset_call,
        Enact_call 0,
        Extract_call (Some 2),
        ComputeCCHistogram_call (Some 2),
        cudaDeviceSynchronize_call]"
  by (simp add: dispatch_cc_INT run_cc_events engine_calls_append engine_calls_run
        some_config_def pair_graph_def malloc_pair)
     (simp add: pair_host_def ok_engine_def engine_calls_def)

text \<open>
  C4, amended. Whatever the configuration holds, the entry point initialises the
  problem with \<open>num_gpus = 1\<close> on the graph of the caller and calls the enactor with
  \<open>max_grid_size = 0\<close>; the configuration is not read. The pointer handed to
  \<open>Extract\<close> and \<open>ComputeCCHistogram\<close> is the one \<open>malloc\<close> returned.
\<close>

theorem dispatch_cc_fixed_arguments:
  "engine_calls (events (dispatch_cc engine ggraph_in cc_config (int_types VALUE_INT) h))
     = engine_calls (events h) @
       [Init_call False
          \<lparr>nodes = word_of_int (num_nodes ggraph_in),
           edges = word_of_int (num_edges ggraph_in),
           row_offsets = GunrockGraph.row_offsets ggraph_in,
           column_indices = col_indices ggraph_in\<rparr> 1,
        Reset_call,
        Enact_call 0,
        Extract_call
          (fst (malloc (4 * scast (word_of_int (num_nodes ggraph_in) :: 32 word)) h)),
        ComputeCCHistogram_call
          (fst (malloc (4 * scast (word_of_int (num_nodes ggraph_in) :: 32 word)) h)),
        cudaDeviceSynchronize_call]"
  by (simp add: dispatch_cc_INT run_cc_events engine_calls_append engine_calls_run Let_def
        split: prod.splits)

subsection \<open>Results and failures\<close>



subsection \<open>The graph store\<close>

text \<open>
  C9. No functor operation writes the edge weights or any part of the data slice
  besides \<open>labels\<close> and \<open>preds\<close>, and the entry point writes no array that was in host
  memory before the call, so the \<open>row_offsets\<close> and \<open>col_indices\<close> of the input graph
  hold afterwards what they held before, for every type combination.
\<close>

theorem graph_store_never_written:
  "d_weights (snd (CondEdge s_id d_id problem e_id e_id_in)) = d_weights problem
   \<and> DataSlice.more (snd (CondEdge s_id d_id problem e_id e_id_in)) = DataSlice.more problem
   \<and> d_weights (ApplyEdge MARK_PATHS s_id d_id problem e_id e_id_in) = d_weights problem
   \<and> DataSlice.more (ApplyEdge MARK_PATHS s_id d_id problem e_id e_id_in)
       = DataSlice.more problem
   \<and> snd (CondFilter node problem v nid) = problem
   \<and> ApplyFilter node problem v nid = problem
   \<and> snd (ComputePriorityScore fdiv node problem) = problem
   \<and> take (length (memory h))
        (memory (gunrock_cc_func engine ggraph_in cc_configs data_type h)) = memory h"
proof -
  have functors:
    "d_weights (snd (CondEdge s_id d_id problem e_id e_id_in)) = d_weights problem
     \<and> DataSlice.more (snd (CondEdge s_id d_id problem e_id e_id_in)) = DataSlice.more problem
     \<and> d_weights (ApplyEdge MARK_PATHS s_id d_id problem e_id e_id_in) = d_weights problem
     \<and> DataSlice.more (ApplyEdge MARK_PATHS s_id d_id problem e_id e_id_in)
         = DataSlice.more problem
     \<and> snd (CondFilter node problem v nid) = problem
     \<and> ApplyFilter node problem v nid = problem
     \<and> snd (ComputePriorityScore fdiv node problem) = problem"
    by (simp add: CondEdge_def atomicMin_def ApplyEdge_def CondFilter_def ApplyFilter_def
        ComputePriorityScore_def Let_def)
  obtain vt where dt: "data_type = int_types vt"
    by (cases data_type, cases "VTXID_TYPE data_type", cases "SIZET_TYPE data_type")
       (simp add: int_types_def)
  have driver: "take (length (memory h))
        (memory (gunrock_cc_func engine ggraph_in cc_configs data_type h)) = memory h"
  proof (cases vt)
    case VALUE_INT
    then show ?thesis
      by (simp add: gunrock_cc_func_def dt dispatch_cc_INT run_cc_memory_prefix)
  next
    case VALUE_UINT
    then show ?thesis
      by (simp add: gunrock_cc_func_def dt dispatch_cc_def int_types_def memory_emit)
  next
    case VALUE_FLOAT
    then show ?thesis
      by (simp add: gunrock_cc_func_def dt dispatch_cc_def int_types_def memory_emit)
  qed
  from functors driver show ?thesis by simp
qed

end
